theory Spec2Isabelle
  imports Main
begin

section \<open>Formatting verbs of fmt.Sprintf\<close>

text \<open>
  The client builds every path and the protocol error message with \<^verbatim>\<open>fmt.Sprintf\<close>.
  Only two verbs occur: \<^verbatim>\<open>%s\<close> (the string itself) and \<^verbatim>\<open>%d\<close> (a Go \<^verbatim>\<open>int\<close> in
  decimal, with a leading minus sign when negative). No arithmetic is done on these
  integers, so they are modelled as \<^typ>\<open>int\<close>.
\<close>

definition digit_char :: "nat \<Rightarrow> char" where
  "digit_char d = ''0123456789'' ! d"

fun dec_nat :: "nat \<Rightarrow> string" where
  "dec_nat n = (if n < 10 then [digit_char n] else dec_nat (n div 10) @ [digit_char (n mod 10)])"

declare dec_nat.simps [simp del]

definition itoa :: "int \<Rightarrow> string" where
  "itoa i = (if i < 0 then CHR ''-'' # dec_nat (nat (- i)) else dec_nat (nat i))"

section \<open>Path templates (orders file)\<close>

text \<open>
  Each constant of the source is a format string with \<^verbatim>\<open>%d\<close> holes; the model gives
  the result of \<^verbatim>\<open>fmt.Sprintf\<close> on it as a function of the integers substituted.
\<close>

definition getShopOrdersPath :: "int \<Rightarrow> string" where
  "getShopOrdersPath shopId = ''shops/'' @ itoa shopId @ ''/orders.json''"

definition getShopOrderPath :: "int \<Rightarrow> int \<Rightarrow> string" where
  "getShopOrderPath shopId orderId =
     ''shops/'' @ itoa shopId @ ''/orders/'' @ itoa orderId @ ''.json''"

definition sendOrderToProductionPath :: "int \<Rightarrow> int \<Rightarrow> string" where
  "sendOrderToProductionPath shopId orderId =
     ''shops/'' @ itoa shopId @ ''/orders/'' @ itoa orderId @ ''/send_to_production.json''"

definition getShippingCostsPath :: "int \<Rightarrow> string" where
  "getShippingCostsPath shopId = ''shops/'' @ itoa shopId @ ''/orders/shipping.json''"

definition cancelOrderPath :: "int \<Rightarrow> int \<Rightarrow> string" where
  "cancelOrderPath shopId orderId =
     ''shops/'' @ itoa shopId @ ''/orders/'' @ itoa orderId @ ''/cancel.json''"

text \<open>
  The path of \<^verbatim>\<open>ListShopOrders\<close>, statement by statement: a \<^verbatim>\<open>?\<close> when any of the three
  optional parameters is given, then \<^verbatim>\<open>page=%d\<close>, \<^verbatim>\<open>&limit=%d\<close> and \<^verbatim>\<open>&status=%s\<close>, each
  under its own nil test. A nil pointer is \<^const>\<open>None\<close>, and \<open>notnil p\<close> is \<^verbatim>\<open>p != nil\<close>.
\<close>

definition notnil :: "'a option \<Rightarrow> bool" where
  "notnil p = (p \<noteq> None)"

definition ListShopOrders_path :: "int \<Rightarrow> int option \<Rightarrow> int option \<Rightarrow> string option \<Rightarrow> string" where
  "ListShopOrders_path shopId page limit statusFilter =
     (let path0 = getShopOrdersPath shopId;
          path1 = (if notnil page \<or> notnil limit \<or> notnil statusFilter
                   then path0 @ ''?'' else path0);
          path2 = (case page of None \<Rightarrow> path1 | Some p \<Rightarrow> path1 @ ''page='' @ itoa p);
          path3 = (case limit of None \<Rightarrow> path2 | Some l \<Rightarrow> path2 @ ''&limit='' @ itoa l);
          path4 = (case statusFilter of None \<Rightarrow> path3 | Some s \<Rightarrow> path3 @ ''&status='' @ s)
      in path4)"

section \<open>JSON documents and the errors of the libraries\<close>

text \<open>
  The text layer of \<^verbatim>\<open>encoding/json\<close> (scanning bytes, escapes, white space) is not
  modelled: a JSON document is its syntax tree. An object keeps its members in the order
  of the text, with duplicates, because the decoder visits them in that order. A number
  keeps its literal, because whether it fits a Go \<^verbatim>\<open>int\<close> is decided on the literal.
\<close>

datatype json =
    JNull
  | JBool bool
  | JNumber string
  | JString string
  | JArray "json list"
  | JObject "(string \<times> json) list"

text \<open>
  Go errors are values of the interface \<^verbatim>\<open>error\<close>; the constructors are the dynamic
  types that can reach a caller of this client. \<open>ErrorString\<close> is what \<^verbatim>\<open>fmt.Errorf\<close>
  returns for a format without \<^verbatim>\<open>%w\<close>; \<open>TransportError\<close> stands for whatever the
  HTTP transport reports; \<open>UnmarshalerError\<close> for what a type's own \<^verbatim>\<open>UnmarshalJSON\<close>
  reports.
\<close>

datatype error =
    ErrorString string
  | TransportError string
  | RequestError string
  | UnsupportedValueError string
  | SyntaxError string
  | UnmarshalTypeError string string
  | UnmarshalerError string
  | EOF
  | ErrUnexpectedEOF
  | ErrBodyReadAfterClose

text \<open>
  What the bytes of a response body are to a JSON reader: nothing (or white space only),
  a document cut short, bytes that are not JSON, or exactly one document.
\<close>

datatype payload = Empty | Truncated | Garbage | Doc json

fun kind :: "json \<Rightarrow> string" where
  "kind JNull = ''null''"
| "kind (JBool b) = ''bool''"
| "kind (JNumber n) = ''number''"
| "kind (JString s) = ''string''"
| "kind (JArray xs) = ''array''"
| "kind (JObject kvs) = ''object''"

section \<open>Decoding into Go values\<close>

text \<open>
  \<^verbatim>\<open>Unmarshal\<close> writes into an existing value. A JSON value of the wrong kind for its
  target is skipped, the first such error is saved, and decoding goes on (\<open>Saved\<close>);
  an error of a type's own \<^verbatim>\<open>UnmarshalJSON\<close> stops decoding at once (\<open>Aborted\<close>).
  In both cases what was written so far stays written.
\<close>

datatype flow = Done | Saved error | Aborted error

type_synonym 'a store = "json \<Rightarrow> 'a \<Rightarrow> flow \<times> 'a"

fun then_flow :: "flow \<Rightarrow> flow \<Rightarrow> flow" where
  "then_flow Done r = r"
| "then_flow (Saved e) (Aborted e') = Aborted e'"
| "then_flow (Saved e) r = Saved e"
| "then_flow (Aborted e) r = Aborted e"

fun flow_error :: "flow \<Rightarrow> error option" where
  "flow_error Done = None"
| "flow_error (Saved e) = Some e"
| "flow_error (Aborted e) = Some e"

fun is_Aborted :: "flow \<Rightarrow> bool" where
  "is_Aborted (Aborted e) = True"
| "is_Aborted r = False"

text \<open>Scalars: \<^verbatim>\<open>null\<close> leaves a string, bool or int as it is.\<close>

fun store_string :: "string store" where
  "store_string JNull s = (Done, s)"
| "store_string (JString t) s = (Done, t)"
| "store_string j s = (Saved (UnmarshalTypeError (kind j) ''string''), s)"

fun store_bool :: "bool store" where
  "store_bool JNull b = (Done, b)"
| "store_bool (JBool c) b = (Done, c)"
| "store_bool j b = (Saved (UnmarshalTypeError (kind j) ''bool''), b)"

fun digit_val :: "char \<Rightarrow> nat option" where
  "digit_val c =
     (let n = (of_char c :: nat) in if 48 \<le> n \<and> n \<le> 57 then Some (n - 48) else None)"

fun parse_digits :: "nat \<Rightarrow> string \<Rightarrow> nat option" where
  "parse_digits acc [] = Some acc"
| "parse_digits acc (c # cs) =
     (case digit_val c of None \<Rightarrow> None | Some d \<Rightarrow> parse_digits (10 * acc + d) cs)"

text \<open>
  \<^verbatim>\<open>strconv.ParseInt(lit, 10, 64)\<close> on a JSON number literal: digits after an
  optional minus sign, within the 64-bit range; a fraction or an exponent is refused.
\<close>

definition ParseInt :: "string \<Rightarrow> int option" where
  "ParseInt lit =
     (let neg = (lit \<noteq> [] \<and> hd lit = CHR ''-'');
          ds = (if neg then tl lit else lit)
      in if ds = [] then None
         else case parse_digits 0 ds of
                None \<Rightarrow> None
              | Some n \<Rightarrow>
                  (let i = (if neg then - int n else int n)
                   in if - 9223372036854775808 \<le> i \<and> i \<le> 9223372036854775807 then Some i else None))"

fun store_int :: "int store" where
  "store_int JNull i = (Done, i)"
| "store_int (JNumber lit) i =
     (case ParseInt lit of
        None \<Rightarrow> (Saved (UnmarshalTypeError (''number '' @ lit) ''int''), i)
      | Some n \<Rightarrow> (Done, n))"
| "store_int j i = (Saved (UnmarshalTypeError (kind j) ''int''), i)"

text \<open>
  A pointer field: \<^verbatim>\<open>null\<close> sets it to nil; any other value is stored through the
  pointer, which is first allocated (at the zero value \<open>z\<close>) when it is nil, and stays
  allocated when the value is then refused.
\<close>

definition store_ptr :: "'a \<Rightarrow> 'a store \<Rightarrow> 'a option store" where
  "store_ptr z st j p =
     (case j of
        JNull \<Rightarrow> (Done, None)
      | _ \<Rightarrow> (case st j (case p of None \<Rightarrow> z | Some x \<Rightarrow> x) of (r, x') \<Rightarrow> (r, Some x')))"

text \<open>
  A slice, nil being \<^const>\<open>None\<close>: \<^verbatim>\<open>null\<close> sets it to nil; an array is stored
  element by element, into the elements the slice already has and into fresh zero
  elements after them, and the slice gets the length of the array. The capacity of the
  slice is taken to be its length.
\<close>

fun store_elems :: "'a \<Rightarrow> 'a store \<Rightarrow> json list \<Rightarrow> 'a list \<Rightarrow> flow \<times> 'a list" where
  "store_elems z st [] xs = (Done, [])"
| "store_elems z st (j # js) xs =
     (let x = (case xs of [] \<Rightarrow> z | y # ys \<Rightarrow> y);
          rest = (case xs of [] \<Rightarrow> [] | y # ys \<Rightarrow> ys)
      in case st j x of (r, x') \<Rightarrow>
           if is_Aborted r then (r, x' # rest)
           else (case store_elems z st js rest of (r', xs') \<Rightarrow> (then_flow r r', x' # xs')))"

definition store_slice :: "'a \<Rightarrow> 'a store \<Rightarrow> 'a list option store" where
  "store_slice z st j s =
     (case j of
        JNull \<Rightarrow> (Done, None)
      | JArray js \<Rightarrow>
          (case store_elems z st js (case s of None \<Rightarrow> [] | Some xs \<Rightarrow> xs) of
             (r, xs') \<Rightarrow> (r, Some xs'))
      | _ \<Rightarrow> (Saved (UnmarshalTypeError (kind j) ''slice''), s))"

text \<open>
  A struct: \<^verbatim>\<open>null\<close> leaves it as it is; the members of an object are visited in
  order, each handed to the field its key names (\<open>fld\<close>; a key that names no field is
  skipped); any other value is refused.
\<close>

fun store_members :: "(string \<Rightarrow> 'a store) \<Rightarrow> (string \<times> json) list \<Rightarrow> 'a \<Rightarrow> flow \<times> 'a" where
  "store_members fld [] v = (Done, v)"
| "store_members fld ((k, j) # kvs) v =
     (case fld k j v of (r, v') \<Rightarrow>
        if is_Aborted r then (r, v')
        else (case store_members fld kvs v' of (r', v'') \<Rightarrow> (then_flow r r', v'')))"

definition store_struct :: "string \<Rightarrow> (string \<Rightarrow> 'a store) \<Rightarrow> 'a store" where
  "store_struct tyname fld j v =
     (case j of
        JNull \<Rightarrow> (Done, v)
      | JObject kvs \<Rightarrow> store_members fld kvs v
      | _ \<Rightarrow> (Saved (UnmarshalTypeError (kind j) tyname), v))"

text \<open>
  A key names a field when it equals the field's JSON name, or equals it after case
  folding. Folding maps ASCII letters to upper case; the only two runes outside ASCII
  that fold to an ASCII letter are U+017F (to S) and U+212A (to K), here in UTF-8.
\<close>

fun foldName :: "string \<Rightarrow> string" where
  "foldName [] = []"
| "foldName (c # cs) =
     (if c = CHR 0xC5 \<and> take 1 cs = [CHR 0xBF] then CHR ''S'' # foldName (drop 1 cs)
      else if c = CHR 0xE2 \<and> take 2 cs = [CHR 0x84, CHR 0xAA] then CHR ''K'' # foldName (drop 2 cs)
      else (let n = (of_char c :: nat) in if 97 \<le> n \<and> n \<le> 122 then char_of (n - 32) else c)
             # foldName cs)"

definition names :: "string \<Rightarrow> string \<Rightarrow> bool" where
  "names key field = (key = field \<or> foldName key = foldName field)"

section \<open>Encoding Go values\<close>

text \<open>
  \<^verbatim>\<open>Encode\<close> gives the document or the first error met. The members of a struct are
  collected in the order of its fields; a field tagged \<^verbatim>\<open>omitempty\<close> adds no member when
  it is a nil pointer or a slice of length zero.
\<close>

fun collect :: "(error + 'a list) list \<Rightarrow> error + 'a list" where
  "collect [] = Inr []"
| "collect (Inl e # rest) = Inl e"
| "collect (Inr xs # rest) = (case collect rest of Inl e \<Rightarrow> Inl e | Inr ys \<Rightarrow> Inr (xs @ ys))"

definition member :: "string \<Rightarrow> error + json \<Rightarrow> error + (string \<times> json) list" where
  "member name r = (case r of Inl e \<Rightarrow> Inl e | Inr j \<Rightarrow> Inr [(name, j)])"

definition encode_ptr :: "('a \<Rightarrow> error + json) \<Rightarrow> 'a option \<Rightarrow> error + json" where
  "encode_ptr enc p = (case p of None \<Rightarrow> Inr JNull | Some x \<Rightarrow> enc x)"

definition encode_slice :: "('a \<Rightarrow> error + json) \<Rightarrow> 'a list option \<Rightarrow> error + json" where
  "encode_slice enc s =
     (case s of
        None \<Rightarrow> Inr JNull
      | Some xs \<Rightarrow>
          (case collect (map (\<lambda>x. case enc x of Inl e \<Rightarrow> Inl e | Inr j \<Rightarrow> Inr [j]) xs) of
             Inl e \<Rightarrow> Inl e
           | Inr js \<Rightarrow> Inr (JArray js)))"

definition omitempty_ptr ::
  "string \<Rightarrow> ('a \<Rightarrow> error + json) \<Rightarrow> 'a option \<Rightarrow> error + (string \<times> json) list" where
  "omitempty_ptr name enc p = (case p of None \<Rightarrow> Inr [] | Some x \<Rightarrow> member name (enc x))"

definition omitempty_slice ::
  "string \<Rightarrow> ('a \<Rightarrow> error + json) \<Rightarrow> 'a list option \<Rightarrow> error + (string \<times> json) list" where
  "omitempty_slice name enc s =
     (if s = None \<or> s = Some [] then Inr [] else member name (encode_slice enc s))"

definition encode_string :: "string \<Rightarrow> error + json" where
  "encode_string s = Inr (JString s)"

definition encode_bool :: "bool \<Rightarrow> error + json" where
  "encode_bool b = Inr (JBool b)"

definition encode_int :: "int \<Rightarrow> error + json" where
  "encode_int i = Inr (JNumber (itoa i))"

section \<open>What the libraries decide\<close>

text \<open>
  Types whose JSON form is fixed outside the two files of the client are type parameters,
  each with the three things the client's code needs of it: its zero value, how a JSON
  value is stored into it, how it is encoded (which may fail: a \<^verbatim>\<open>float32\<close> that is NaN
  or infinite has no JSON form). They are \<^verbatim>\<open>map[string]string\<close> (\<open>'ad\<close>),
  \<^verbatim>\<open>LineItem\<close> (\<open>'li\<close>, whose \<^verbatim>\<open>PrintDetails\<close> is declared elsewhere),
  \<^verbatim>\<open>OrderMetadata\<close> (\<open>'md\<close>), \<^verbatim>\<open>float32\<close> (\<open>'f\<close>), \<^verbatim>\<open>Shipment\<close> (\<open>'sh\<close>)
  and \<^verbatim>\<open>time.Time\<close> (\<open>'t\<close>).

  Two results of \<^verbatim>\<open>net/url\<close> and \<^verbatim>\<open>net/http\<close> are parameters as well:
  \<open>ResolveString base p\<close> is the text of \<^verbatim>\<open>base.ResolveReference(&url.URL{Path: p})\<close>,
  and \<open>NewRequestError method url\<close> is the error, if any, with which
  \<^verbatim>\<open>http.NewRequest\<close> refuses a method or a URL.
\<close>

record 'a codec =
  zero :: 'a
  store :: "'a store"
  encode :: "'a \<Rightarrow> error + json"

record URL =
  Scheme :: string
  Host :: string

record ('ad, 'li, 'md, 'f, 'sh, 't) lib =
  ResolveString :: "URL \<Rightarrow> string \<Rightarrow> string"
  NewRequestError :: "string \<Rightarrow> string \<Rightarrow> error option"
  StringMap :: "'ad codec"
  LineItem :: "'li codec"
  OrderMetadata :: "'md codec"
  Float32 :: "'f codec"
  Shipment :: "'sh codec"
  Time :: "'t codec"

section \<open>The records of the orders file\<close>

text \<open>
  A pointer field is an \<open>option\<close> (nil is \<^const>\<open>None\<close>), a slice an optional list
  (the nil slice is \<^const>\<open>None\<close>, the empty one \<open>Some []\<close>). The field \<^verbatim>\<open>Id\<close> is
  \<open>OrderId\<close> here.
\<close>

record ('ad, 'li, 'md, 'f, 'sh, 't) Order =
  OrderId :: "string option"
  AddressTo :: "'ad option"
  LineItems :: "'li option list option"
  Metadata :: "'md option"
  TotalPrice :: "'f option"
  TotalShipping :: "'f option"
  TotalTax :: "'f option"
  Status :: "string option"
  ShippingMethod :: int
  SendShippingNotification :: "bool option"
  Shipments :: "'sh option list option"
  CreatedAt :: "'t option"
  SentToProductionAt :: "'t option"
  FulfilledAt :: "'t option"

record 'f ShippingCost =
  Standard :: 'f
  Express :: 'f

record OrderSubmitResponse =
  ID :: "string option"

definition zero_Order :: "('ad, 'li, 'md, 'f, 'sh, 't) Order" where
  "zero_Order =
     \<lparr>OrderId = None, AddressTo = None, LineItems = None, Metadata = None,
      TotalPrice = None, TotalShipping = None, TotalTax = None, Status = None,
      ShippingMethod = 0, SendShippingNotification = None, Shipments = None,
      CreatedAt = None, SentToProductionAt = None, FulfilledAt = None\<rparr>"

definition zero_ShippingCost :: "('ad, 'li, 'md, 'f, 'sh, 't) lib \<Rightarrow> 'f ShippingCost" where
  "zero_ShippingCost L = \<lparr>Standard = zero (Float32 L), Express = zero (Float32 L)\<rparr>"

definition zero_OrderSubmitResponse :: OrderSubmitResponse where
  "zero_OrderSubmitResponse = \<lparr>ID = None\<rparr>"

text \<open>
  The field a key names, by the \<^verbatim>\<open>json\<close> tags of \<^verbatim>\<open>Order\<close>, and the store of that
  field's type. A key that names no field changes nothing and is no error: the decoder
  is used as \<^verbatim>\<open>json.NewDecoder(..).Decode(v)\<close>, without \<^verbatim>\<open>DisallowUnknownFields\<close>.
\<close>

definition Order_field :: "('ad, 'li, 'md, 'f, 'sh, 't) lib \<Rightarrow> string \<Rightarrow> ('ad, 'li, 'md, 'f, 'sh, 't) Order store" where
  "Order_field L key j ord =
     (if names key ''id'' then
        (case store_ptr [] store_string j (OrderId ord) of (r, x) \<Rightarrow> (r, ord\<lparr>OrderId := x\<rparr>))
      else if names key ''address_to'' then
        (case store_ptr (zero (StringMap L)) (store (StringMap L)) j (AddressTo ord) of
           (r, x) \<Rightarrow> (r, ord\<lparr>AddressTo := x\<rparr>))
      else if names key ''line_items'' then
        (case store_slice None (store_ptr (zero (LineItem L)) (store (LineItem L))) j (LineItems ord) of
           (r, x) \<Rightarrow> (r, ord\<lparr>LineItems := x\<rparr>))
      else if names key ''metadata'' then
        (case store_ptr (zero (OrderMetadata L)) (store (OrderMetadata L)) j (Metadata ord) of
           (r, x) \<Rightarrow> (r, ord\<lparr>Metadata := x\<rparr>))
      else if names key ''total_price'' then
        (case store_ptr (zero (Float32 L)) (store (Float32 L)) j (TotalPrice ord) of
           (r, x) \<Rightarrow> (r, ord\<lparr>TotalPrice := x\<rparr>))
      else if names key ''total_shipping'' then
        (case store_ptr (zero (Float32 L)) (store (Float32 L)) j (TotalShipping ord) of
           (r, x) \<Rightarrow> (r, ord\<lparr>TotalShipping := x\<rparr>))
      else if names key ''total_tax'' then
        (case store_ptr (zero (Float32 L)) (store (Float32 L)) j (TotalTax ord) of
           (r, x) \<Rightarrow> (r, ord\<lparr>TotalTax := x\<rparr>))
      else if names key ''status'' then
        (case store_ptr [] store_string j (Status ord) of (r, x) \<Rightarrow> (r, ord\<lparr>Status := x\<rparr>))
      else if names key ''shipping_method'' then
        (case store_int j (ShippingMethod ord) of (r, x) \<Rightarrow> (r, ord\<lparr>ShippingMethod := x\<rparr>))
      else if names key ''send_shipping_notification'' then
        (case store_ptr False store_bool j (SendShippingNotification ord) of
           (r, x) \<Rightarrow> (r, ord\<lparr>SendShippingNotification := x\<rparr>))
      else if names key ''shipments'' then
        (case store_slice None (store_ptr (zero (Shipment L)) (store (Shipment L))) j (Shipments ord) of
           (r, x) \<Rightarrow> (r, ord\<lparr>Shipments := x\<rparr>))
      else if names key ''created_at'' then
        (case store_ptr (zero (Time L)) (store (Time L)) j (CreatedAt ord) of
           (r, x) \<Rightarrow> (r, ord\<lparr>CreatedAt := x\<rparr>))
      else if names key ''sent_to_production_at'' then
        (case store_ptr (zero (Time L)) (store (Time L)) j (SentToProductionAt ord) of
           (r, x) \<Rightarrow> (r, ord\<lparr>SentToProductionAt := x\<rparr>))
      else if names key ''fulfilled_at'' then
        (case store_ptr (zero (Time L)) (store (Time L)) j (FulfilledAt ord) of
           (r, x) \<Rightarrow> (r, ord\<lparr>FulfilledAt := x\<rparr>))
      else (Done, ord))"

definition store_Order :: "('ad, 'li, 'md, 'f, 'sh, 't) lib \<Rightarrow> ('ad, 'li, 'md, 'f, 'sh, 't) Order store" where
  "store_Order L = store_struct ''Order'' (Order_field L)"

text \<open>The destination of \<^verbatim>\<open>ListShopOrders\<close>, a \<^verbatim>\<open>[]*Order\<close>.\<close>

definition store_Orders :: "('ad, 'li, 'md, 'f, 'sh, 't) lib \<Rightarrow> ('ad, 'li, 'md, 'f, 'sh, 't) Order option list option store" where
  "store_Orders L = store_slice None (store_ptr zero_Order (store_Order L))"

definition ShippingCost_field :: "('ad, 'li, 'md, 'f, 'sh, 't) lib \<Rightarrow> string \<Rightarrow> 'f ShippingCost store" where
  "ShippingCost_field L key j sc =
     (if names key ''standard'' then
        (case store (Float32 L) j (Standard sc) of (r, x) \<Rightarrow> (r, sc\<lparr>Standard := x\<rparr>))
      else if names key ''express'' then
        (case store (Float32 L) j (Express sc) of (r, x) \<Rightarrow> (r, sc\<lparr>Express := x\<rparr>))
      else (Done, sc))"

definition store_ShippingCost :: "('ad, 'li, 'md, 'f, 'sh, 't) lib \<Rightarrow> 'f ShippingCost store" where
  "store_ShippingCost L = store_struct ''ShippingCost'' (ShippingCost_field L)"

definition OrderSubmitResponse_field :: "string \<Rightarrow> OrderSubmitResponse store" where
  "OrderSubmitResponse_field key j rd =
     (if names key ''id'' then
        (case store_ptr [] store_string j (ID rd) of (r, x) \<Rightarrow> (r, rd\<lparr>ID := x\<rparr>))
      else (Done, rd))"

definition store_OrderSubmitResponse :: "OrderSubmitResponse store" where
  "store_OrderSubmitResponse = store_struct ''OrderSubmitResponse'' OrderSubmitResponse_field"

text \<open>
  The members of an encoded \<^verbatim>\<open>Order\<close>, field by field in the order of the struct.
  \<^verbatim>\<open>line_items\<close>, \<^verbatim>\<open>shipping_method\<close> and \<^verbatim>\<open>send_shipping_notification\<close> have no
  \<^verbatim>\<open>omitempty\<close> and are always written, a nil slice or pointer as \<^verbatim>\<open>null\<close>.
\<close>

definition encode_Order :: "('ad, 'li, 'md, 'f, 'sh, 't) lib \<Rightarrow> ('ad, 'li, 'md, 'f, 'sh, 't) Order \<Rightarrow> error + json" where
  "encode_Order L ord =
     (case collect
        [omitempty_ptr ''id'' encode_string (OrderId ord),
         omitempty_ptr ''address_to'' (encode (StringMap L)) (AddressTo ord),
         member ''line_items'' (encode_slice (encode_ptr (encode (LineItem L))) (LineItems ord)),
         omitempty_ptr ''metadata'' (encode (OrderMetadata L)) (Metadata ord),
         omitempty_ptr ''total_price'' (encode (Float32 L)) (TotalPrice ord),
         omitempty_ptr ''total_shipping'' (encode (Float32 L)) (TotalShipping ord),
         omitempty_ptr ''total_tax'' (encode (Float32 L)) (TotalTax ord),
         omitempty_ptr ''status'' encode_string (Status ord),
         member ''shipping_method'' (encode_int (ShippingMethod ord)),
         member ''send_shipping_notification'' (encode_ptr encode_bool (SendShippingNotification ord)),
         omitempty_slice ''shipments'' (encode_ptr (encode (Shipment L))) (Shipments ord),
         omitempty_ptr ''created_at'' (encode (Time L)) (CreatedAt ord),
         omitempty_ptr ''sent_to_production_at'' (encode (Time L)) (SentToProductionAt ord),
         omitempty_ptr ''fulfilled_at'' (encode (Time L)) (FulfilledAt ord)]
      of Inl e \<Rightarrow> Inl e
       | Inr ms \<Rightarrow> Inr (JObject ms))"

section \<open>The client (client file)\<close>

text \<open>
  A request as \<^verbatim>\<open>http.NewRequest\<close> makes it and \<^verbatim>\<open>newRequest\<close> fills it, with the
  header a map from (canonical) keys to value lists. A response is the status code and
  a body stream: what is still unread, whether \<^verbatim>\<open>Close\<close> was called, and whether
  the stream can still be read after that (a body of \<^verbatim>\<open>net/http\<close> cannot, an
  \<^verbatim>\<open>io.NopCloser\<close> around a buffer can). The transport \<^verbatim>\<open>httpClient.Do\<close> is a function
  of the request that gives an error or a response.
\<close>

record Request =
  Method :: string
  RequestURL :: string
  Header :: "string \<rightharpoonup> string list"
  RequestBody :: "json option"

record ReadCloser =
  pending :: payload
  closed :: bool
  readable_after_close :: bool

record Response =
  StatusCode :: int
  Body :: ReadCloser

record Client =
  BaseURL :: URL
  ApiVersion :: string
  UserAgent :: string
  httpClient :: "Request \<Rightarrow> error + Response"
  apiKey :: string

definition contentType :: string where
  "contentType = ''application/json;charset=utf-8''"

definition baseURL :: string where
  "baseURL = ''api.printify.com''"

definition scheme :: string where
  "scheme = ''https''"

text \<open>\<^verbatim>\<open>http.DefaultClient\<close> is the argument \<open>defaultClient\<close>.\<close>

definition NewClient :: "(Request \<Rightarrow> error + Response) \<Rightarrow> string \<Rightarrow> Client" where
  "NewClient defaultClient key =
     \<lparr>BaseURL = \<lparr>Scheme = scheme, Host = baseURL\<rparr>,
      ApiVersion = ''v1'',
      UserAgent = ''alhasaniq/go-printify v1.0.2'',
      httpClient = defaultClient,
      apiKey = key\<rparr>"

definition Header_Set :: "string \<Rightarrow> string \<Rightarrow> Request \<Rightarrow> Request" where
  "Header_Set k v req = req\<lparr>Header := (Header req)(k \<mapsto> [v])\<rparr>"

text \<open>
  \<^verbatim>\<open>http.NewRequest(method, url, buf)\<close>: an error for a method or URL it refuses,
  else a request with an empty header; an empty method means GET.
\<close>

definition http_NewRequest ::
  "('ad, 'li, 'md, 'f, 'sh, 't) lib \<Rightarrow> string \<Rightarrow> string \<Rightarrow> json option \<Rightarrow> error + Request" where
  "http_NewRequest L method url buf =
     (case NewRequestError L method url of
        Some err \<Rightarrow> Inl err
      | None \<Rightarrow>
          Inr \<lparr>Method = (if method = [] then ''GET'' else method), RequestURL = url,
               Header = Map.empty, RequestBody = buf\<rparr>)"

text \<open>
  \<^verbatim>\<open>newRequest\<close>. The body is an \<^verbatim>\<open>interface{}\<close>: nil is \<^const>\<open>None\<close>, and
  \<open>enc\<close> is the encoder that \<^verbatim>\<open>Encode\<close> picks for the type of a body that is there
  (it is not run for a nil body).
\<close>

definition newRequest ::
  "('ad, 'li, 'md, 'f, 'sh, 't) lib \<Rightarrow> Client \<Rightarrow> ('b \<Rightarrow> error + json) \<Rightarrow> string \<Rightarrow> string \<Rightarrow> 'b option
     \<Rightarrow> error + Request" where
  "newRequest L c enc method path body =
     (let u = ResolveString L (BaseURL c) (ApiVersion c @ ''/'' @ path)
      in case (case body of
                 None \<Rightarrow> Inr None
               | Some b \<Rightarrow> (case enc b of Inl err \<Rightarrow> Inl err | Inr j \<Rightarrow> Inr (Some j))) of
           Inl err \<Rightarrow> Inl err
         | Inr buf \<Rightarrow>
             (case http_NewRequest L method u buf of
                Inl err \<Rightarrow> Inl err
              | Inr req \<Rightarrow>
                  (let req1 = (if body \<noteq> None then Header_Set ''Content-Type'' contentType req
                               else req);
                       req2 = Header_Set ''Accept'' ''application/json'' req1;
                       req3 = Header_Set ''User-Agent'' (UserAgent c) req2;
                       req4 = Header_Set ''Authorization'' (''Bearer '' @ apiKey c) req3
                   in Inr req4)))"

definition Close :: "Response \<Rightarrow> Response" where
  "Close resp = resp\<lparr>Body := (Body resp)\<lparr>closed := True\<rparr>\<rparr>"

text \<open>
  \<^verbatim>\<open>json.NewDecoder(body).Decode(v)\<close> with the store \<open>st\<close> of the type of \<open>v\<close>:
  the error or nil, the destination afterwards, and the stream afterwards. The syntax
  of the whole value is checked before anything is stored. The decoder is taken to have
  read all of a body it was given.
\<close>

definition Decode :: "'v store \<Rightarrow> ReadCloser \<Rightarrow> 'v \<Rightarrow> (error option \<times> 'v) \<times> ReadCloser" where
  "Decode st rc v =
     (if closed rc \<and> \<not> readable_after_close rc then ((Some ErrBodyReadAfterClose, v), rc)
      else case pending rc of
             Empty \<Rightarrow> ((Some EOF, v), rc)
           | Truncated \<Rightarrow> ((Some ErrUnexpectedEOF, v), rc\<lparr>pending := Empty\<rparr>)
           | Garbage \<Rightarrow> ((Some (SyntaxError ''invalid character''), v), rc\<lparr>pending := Empty\<rparr>)
           | Doc j \<Rightarrow> (case st j v of (r, v') \<Rightarrow> ((flow_error r, v'), rc\<lparr>pending := Empty\<rparr>)))"

definition status_error :: "int \<Rightarrow> error" where
  "status_error code = ErrorString (''printify API request failed with status:'' @ itoa code)"

text \<open>
  \<^verbatim>\<open>do\<close>: the response or nil, the error or nil, and the destination \<open>v\<close> as the call
  leaves it. The deferred \<^verbatim>\<open>Close\<close> has run on every response that is returned.
\<close>

definition do ::
  "Client \<Rightarrow> 'v store \<Rightarrow> Request \<Rightarrow> 'v \<Rightarrow> (Response option \<times> error option) \<times> 'v" where
  "do c st req v =
     (case httpClient c req of
        Inl err \<Rightarrow> ((None, Some err), v)
      | Inr resp \<Rightarrow>
          if StatusCode resp \<ge> 400 then ((Some (Close resp), Some (status_error (StatusCode resp))), v)
          else (case Decode st (Body resp) v of
                  ((err, v'), rc) \<Rightarrow> ((Some (Close (resp\<lparr>Body := rc\<rparr>)), err), v')))"

section \<open>The operations (orders file)\<close>

text \<open>
  A result \<^verbatim>\<open>(*Order, error)\<close> is a pair of options, nil being \<^const>\<open>None\<close>; so is
  \<^verbatim>\<open>([]*Order, error)\<close>, with the nil slice \<^const>\<open>None\<close>. An order that the caller
  passes by pointer is a record (the pointer is taken to be non-nil).
\<close>

definition ListShopOrders ::
  "('ad, 'li, 'md, 'f, 'sh, 't) lib \<Rightarrow> Client \<Rightarrow> int \<Rightarrow> int option \<Rightarrow> int option \<Rightarrow> string option
     \<Rightarrow> ('ad, 'li, 'md, 'f, 'sh, 't) Order option list option \<times> error option" where
  "ListShopOrders L c shopId page limit statusFilter =
     (let path = ListShopOrders_path shopId page limit statusFilter
      in case newRequest L c (encode_Order L) ''GET'' path None of
           Inl err \<Rightarrow> (None, Some err)
         | Inr req \<Rightarrow>
             (case do c (store_Orders L) req (Some []) of
                ((resp, err), orderList) \<Rightarrow> (orderList, err)))"

definition GetOrderDetails ::
  "('ad, 'li, 'md, 'f, 'sh, 't) lib \<Rightarrow> Client \<Rightarrow> int \<Rightarrow> int \<Rightarrow> ('ad, 'li, 'md, 'f, 'sh, 't) Order option \<times> error option" where
  "GetOrderDetails L c shopId orderId =
     (let path = getShopOrderPath shopId orderId
      in case newRequest L c (encode_Order L) ''GET'' path None of
           Inl err \<Rightarrow> (None, Some err)
         | Inr req \<Rightarrow>
             (case do c (store_Order L) req zero_Order of
                ((resp, err), ord) \<Rightarrow> (Some ord, err)))"

text \<open>
  \<^verbatim>\<open>ioutil.ReadAll\<close> with its error dropped, as \<^verbatim>\<open>SubmitOrder\<close> calls it: the unread
  bytes, or none when the stream refuses to be read. \<^verbatim>\<open>json.Unmarshal\<close> wants exactly
  one document.
\<close>

definition ReadAll :: "ReadCloser \<Rightarrow> payload" where
  "ReadAll rc = (if closed rc \<and> \<not> readable_after_close rc then Empty else pending rc)"

definition Unmarshal :: "'v store \<Rightarrow> payload \<Rightarrow> 'v \<Rightarrow> error option \<times> 'v" where
  "Unmarshal st p v =
     (case p of
        Empty \<Rightarrow> (Some (SyntaxError ''unexpected end of JSON input''), v)
      | Truncated \<Rightarrow> (Some (SyntaxError ''unexpected end of JSON input''), v)
      | Garbage \<Rightarrow> (Some (SyntaxError ''invalid character''), v)
      | Doc j \<Rightarrow> (case st j v of (r, v') \<Rightarrow> (flow_error r, v')))"

text \<open>
  \<^verbatim>\<open>SubmitOrder\<close> can end in a run-time panic, so its control outcome is either a
  return with the pair \<^verbatim>\<open>(*string, error)\<close> or a panic. The order is the request body
  and the destination of \<^verbatim>\<open>do\<close> at once; the second component of the result is the
  caller's order as the call leaves it. In the branch \<^verbatim>\<open>err != nil\<close> the source reads
  \<^verbatim>\<open>resp.Body\<close>, and \<^verbatim>\<open>resp\<close> is nil when the transport failed.
\<close>

datatype 'a outcome = Returns 'a | Panics string

definition SubmitOrder ::
  "('ad, 'li, 'md, 'f, 'sh, 't) lib \<Rightarrow> Client \<Rightarrow> int \<Rightarrow> ('ad, 'li, 'md, 'f, 'sh, 't) Order
     \<Rightarrow> (string option \<times> error option) outcome \<times> ('ad, 'li, 'md, 'f, 'sh, 't) Order" where
  "SubmitOrder L c shopId ord =
     (let path = getShopOrdersPath shopId
      in case newRequest L c (encode_Order L) ''POST'' path (Some ord) of
           Inl err \<Rightarrow> (Returns (None, Some err), ord)
         | Inr req \<Rightarrow>
             (case do c (store_Order L) req ord of
                ((resp, err), ord') \<Rightarrow>
                  if err \<noteq> None then
                    (case resp of
                       None \<Rightarrow> (Panics ''invalid memory address or nil pointer dereference'', ord')
                     | Some r \<Rightarrow>
                         (case Unmarshal store_OrderSubmitResponse (ReadAll (Body r))
                                 zero_OrderSubmitResponse of
                            (Some err', responseData) \<Rightarrow> (Returns (None, Some err'), ord')
                          | (None, responseData) \<Rightarrow> (Returns (ID responseData, None), ord')))
                  else (Returns (None, err), ord')))"

definition SendOrderToProduction ::
  "('ad, 'li, 'md, 'f, 'sh, 't) lib \<Rightarrow> Client \<Rightarrow> int \<Rightarrow> int \<Rightarrow> ('ad, 'li, 'md, 'f, 'sh, 't) Order option \<times> error option" where
  "SendOrderToProduction L c shopId orderId =
     (let path = sendOrderToProductionPath shopId orderId
      in case newRequest L c (encode_Order L) ''POST'' path None of
           Inl err \<Rightarrow> (None, Some err)
         | Inr req \<Rightarrow>
             (case do c (store_Order L) req zero_Order of
                ((resp, err), ord) \<Rightarrow> (Some ord, err)))"

text \<open>
  \<^verbatim>\<open>CalculateShippingCosts\<close> only encodes the caller's order; its destination is a
  fresh \<^verbatim>\<open>ShippingCost\<close>. The second component is again the caller's order afterwards.
\<close>

definition CalculateShippingCosts ::
  "('ad, 'li, 'md, 'f, 'sh, 't) lib \<Rightarrow> Client \<Rightarrow> int \<Rightarrow> ('ad, 'li, 'md, 'f, 'sh, 't) Order
     \<Rightarrow> ('f ShippingCost option \<times> error option) \<times> ('ad, 'li, 'md, 'f, 'sh, 't) Order" where
  "CalculateShippingCosts L c shopId ord =
     (let path = getShippingCostsPath shopId
      in case newRequest L c (encode_Order L) ''POST'' path (Some ord) of
           Inl err \<Rightarrow> ((None, Some err), ord)
         | Inr req \<Rightarrow>
             (case do c (store_ShippingCost L) req (zero_ShippingCost L) of
                ((resp, err), shippingCost) \<Rightarrow> ((Some shippingCost, err), ord)))"

definition CancelOrder ::
  "('ad, 'li, 'md, 'f, 'sh, 't) lib \<Rightarrow> Client \<Rightarrow> int \<Rightarrow> int \<Rightarrow> ('ad, 'li, 'md, 'f, 'sh, 't) Order option \<times> error option" where
  "CancelOrder L c shopId orderId =
     (let path = cancelOrderPath shopId orderId
      in case newRequest L c (encode_Order L) ''POST'' path None of
           Inl err \<Rightarrow> (None, Some err)
         | Inr req \<Rightarrow>
             (case do c (store_Order L) req zero_Order of
                ((resp, err), ord) \<Rightarrow> (Some ord, err)))"

section \<open>A library instance and two transports for concrete calls\<close>

text \<open>
  To run the model on a concrete call the library parameters need values. In \<open>raw_lib\<close>
  every type left open above is represented by the JSON value it was decoded from, a
  resolved URL is scheme, host and path joined, and \<^verbatim>\<open>http.NewRequest\<close> accepts what
  it is given. \<open>replying code p\<close> is a transport that answers every request with status
  \<open>code\<close> and body \<open>p\<close> (a body of \<^verbatim>\<open>net/http\<close>, not yet closed); \<open>unreachable\<close> is
  one that fails.
\<close>

definition raw_codec :: "json codec" where
  "raw_codec = \<lparr>zero = JNull, store = (\<lambda>j x. (Done, j)), encode = (\<lambda>x. Inr x)\<rparr>"

definition raw_lib :: "(json, json, json, json, json, json) lib" where
  "raw_lib =
     \<lparr>ResolveString = (\<lambda>base p. Scheme base @ ''://'' @ Host base @ ''/'' @ p),
      NewRequestError = (\<lambda>method url. None),
      StringMap = raw_codec, LineItem = raw_codec, OrderMetadata = raw_codec,
      Float32 = raw_codec, Shipment = raw_codec, Time = raw_codec\<rparr>"

definition replying :: "int \<Rightarrow> payload \<Rightarrow> Request \<Rightarrow> error + Response" where
  "replying code p req =
     Inr \<lparr>StatusCode = code,
          Body = \<lparr>pending = p, closed = False, readable_after_close = False\<rparr>\<rparr>"

definition unreachable :: "Request \<Rightarrow> error + Response" where
  "unreachable req = Inl (TransportError ''dial tcp: connection refused'')"

section \<open>Notions used in the statements\<close>

text \<open>
  The optional fields of an order are its pointer fields and the \<^verbatim>\<open>omitempty\<close> slice
  \<^verbatim>\<open>Shipments\<close>; such a field is absent when it is nil.
\<close>

definition optional_fields_absent :: "('ad, 'li, 'md, 'f, 'sh, 't) Order \<Rightarrow> bool" where
  "optional_fields_absent ord =
     (OrderId ord = None \<and> AddressTo ord = None \<and> Metadata ord = None \<and> TotalPrice ord = None
      \<and> TotalShipping ord = None \<and> TotalTax ord = None \<and> Status ord = None
      \<and> SendShippingNotification ord = None \<and> Shipments ord = None \<and> CreatedAt ord = None
      \<and> SentToProductionAt ord = None \<and> FulfilledAt ord = None)"






text \<open>
  \<open>refuses st p v\<close>: the decoder of a destination (its store \<open>st\<close>) reports an error
  on the body \<open>p\<close> for the destination \<open>v\<close>. A store reports only decode errors at a
  body (\<open>decode_errors_at\<close>) or everywhere (\<open>decode_errors_only\<close>); a library does when
  the stores of all its types do.
\<close>

definition refuses :: "'v store \<Rightarrow> payload \<Rightarrow> 'v \<Rightarrow> bool" where
  "refuses st p v = (case p of Doc j \<Rightarrow> fst (st j v) \<noteq> Done | _ \<Rightarrow> True)"

text \<open>Kinds of JSON values, and a member whose value has the wrong kind for the scalar field
  of \<^verbatim>\<open>Order\<close> that its key names.\<close>

fun is_JObject :: "json \<Rightarrow> bool" where
  "is_JObject (JObject kvs) = True"
| "is_JObject j = False"

fun is_JArray :: "json \<Rightarrow> bool" where
  "is_JArray (JArray js) = True"
| "is_JArray j = False"

fun string_or_null :: "json \<Rightarrow> bool" where
  "string_or_null JNull = True"
| "string_or_null (JString s) = True"
| "string_or_null j = False"

fun bool_or_null :: "json \<Rightarrow> bool" where
  "bool_or_null JNull = True"
| "bool_or_null (JBool b) = True"
| "bool_or_null j = False"

fun int_or_null :: "json \<Rightarrow> bool" where
  "int_or_null JNull = True"
| "int_or_null (JNumber lit) = (ParseInt lit \<noteq> None)"
| "int_or_null j = False"

definition mistyped_Order_member :: "string \<Rightarrow> json \<Rightarrow> bool" where
  "mistyped_Order_member k j =
     ((names k ''id'' \<or> names k ''status'') \<and> \<not> string_or_null j
      \<or> names k ''shipping_method'' \<and> \<not> int_or_null j
      \<or> names k ''send_shipping_notification'' \<and> \<not> bool_or_null j)"

text \<open>
  The keys that name a field of \<^verbatim>\<open>Order\<close>, the members of an object that have such a
  key, and the order that decoding a body into \<open>ord\<close> leaves: the known members of an
  object stored in turn, and \<open>ord\<close> itself for every other body.
\<close>

definition known_Order_key :: "string \<Rightarrow> bool" where
  "known_Order_key k =
     (names k ''id'' \<or> names k ''address_to'' \<or> names k ''line_items'' \<or> names k ''metadata''
      \<or> names k ''total_price'' \<or> names k ''total_shipping'' \<or> names k ''total_tax''
      \<or> names k ''status'' \<or> names k ''shipping_method''
      \<or> names k ''send_shipping_notification'' \<or> names k ''shipments''
      \<or> names k ''created_at'' \<or> names k ''sent_to_production_at'' \<or> names k ''fulfilled_at'')"

definition known_members :: "(string \<times> json) list \<Rightarrow> (string \<times> json) list" where
  "known_members kvs = filter (\<lambda>(k, j). known_Order_key k) kvs"

definition decoded_into ::
  "('ad, 'li, 'md, 'f, 'sh, 't) lib \<Rightarrow> ReadCloser \<Rightarrow> ('ad, 'li, 'md, 'f, 'sh, 't) Order
     \<Rightarrow> ('ad, 'li, 'md, 'f, 'sh, 't) Order" where
  "decoded_into L rc ord =
     (if closed rc \<and> \<not> readable_after_close rc then ord
      else case pending rc of
             Doc (JObject kvs) \<Rightarrow> snd (store_members (Order_field L) (known_members kvs) ord)
           | _ \<Rightarrow> ord)"

text \<open>
  \<open>answers_null c req\<close>: the transport answers \<open>req\<close> with a success status and a
  readable body that is the JSON document \<^verbatim>\<open>null\<close>.
\<close>

definition answers_null :: "Client \<Rightarrow> Request \<Rightarrow> bool" where
  "answers_null c req =
     (case httpClient c req of
        Inl e \<Rightarrow> False
      | Inr resp \<Rightarrow>
          StatusCode resp < 400 \<and> pending (Body resp) = Doc JNull
          \<and> (readable_after_close (Body resp) \<or> closed (Body resp) = False))"

text \<open>
  What an operation with a fresh \<^verbatim>\<open>Order\<close> as destination hands back for a request
  that was built: the zero order with the transport's error; the zero order with the
  status error for a status of 400 or more; else the order as decoding left it, with
  the decoder's verdict.
\<close>

definition order_reply :: "('ad, 'li, 'md, 'f, 'sh, 't) lib \<Rightarrow> Client \<Rightarrow> Request \<Rightarrow> ('ad, 'li, 'md, 'f, 'sh, 't) Order \<times> error option" where
  "order_reply L c req =
     (case httpClient c req of
        Inl err \<Rightarrow> (zero_Order, Some err)
      | Inr resp \<Rightarrow>
          if 400 \<le> StatusCode resp then (zero_Order, Some (status_error (StatusCode resp)))
          else (case Decode (store_Order L) (Body resp) zero_Order of ((err, ord), rc) \<Rightarrow> (ord, err)))"

section \<open>Decimal formatting can be read back\<close>

text \<open>
  The decimal form that \<^verbatim>\<open>%d\<close> prints determines the integer: reading the digits
  back gives the number, so two integers with the same form are equal, and a 64-bit
  integer that is encoded as a JSON number is decoded to itself.
\<close>

lemma digit_val_digit_char: "d < 10 \<Longrightarrow> digit_val (digit_char d) = Some d"
proof -
  assume "d < 10"
  then have "d \<in> {0, 1, 2, 3, 4, 5, 6, 7, 8, 9}" by auto
  then show ?thesis by (auto simp: digit_char_def)
qed

lemma digit_char_not_minus: "d < 10 \<Longrightarrow> digit_char d \<noteq> CHR ''-''"
proof -
  assume "d < 10"
  then have "d \<in> {0, 1, 2, 3, 4, 5, 6, 7, 8, 9}" by auto
  then show ?thesis by (auto simp: digit_char_def)
qed

lemma parse_digits_append:
  "parse_digits acc (xs @ ys) =
     (case parse_digits acc xs of None \<Rightarrow> None | Some a \<Rightarrow> parse_digits a ys)"
  by (induction xs arbitrary: acc) (auto split: option.splits)

lemma parse_digits_dec_nat: "parse_digits 0 (dec_nat n) = Some n"
proof (induction n rule: dec_nat.induct)
  case (1 n)
  show ?case
  proof (cases "n < 10")
    case True
    then show ?thesis
      by (subst dec_nat.simps) (simp add: digit_val_digit_char del: digit_val.simps)
  next
    case False
    with 1 have IH: "parse_digits 0 (dec_nat (n div 10)) = Some (n div 10)" by simp
    have "n mod 10 < 10" by simp
    then have d: "digit_val (digit_char (n mod 10)) = Some (n mod 10)"
      by (rule digit_val_digit_char)
    show ?thesis
      using False IH d
      by (subst dec_nat.simps) (simp add: parse_digits_append del: digit_val.simps)
  qed
qed

lemma dec_nat_not_empty: "dec_nat n \<noteq> []"
  by (subst dec_nat.simps) simp

lemma hd_dec_nat_not_minus: "hd (dec_nat n) \<noteq> CHR ''-''"
proof (induction n rule: dec_nat.induct)
  case (1 n)
  show ?case
  proof (cases "n < 10")
    case True
    then show ?thesis by (subst dec_nat.simps) (simp add: digit_char_not_minus)
  next
    case False
    with 1 have "hd (dec_nat (n div 10)) \<noteq> CHR ''-''" by simp
    with False show ?thesis
      by (subst dec_nat.simps) (simp add: dec_nat_not_empty)
  qed
qed

lemma ParseInt_itoa:
  "- 9223372036854775808 \<le> i \<Longrightarrow> i \<le> 9223372036854775807 \<Longrightarrow> ParseInt (itoa i) = Some i"
  by (simp add: ParseInt_def itoa_def Let_def parse_digits_dec_nat dec_nat_not_empty
        hd_dec_nat_not_minus)

lemma itoa_inject: "itoa a = itoa b \<Longrightarrow> a = b"
proof -
  assume eq: "itoa a = itoa b"
  have sign: "\<And>i. (hd (itoa i) = CHR ''-'') = (i < 0)"
    by (simp add: itoa_def hd_dec_nat_not_minus)
  from eq have s: "(a < 0) = (b < 0)" using sign [of a] sign [of b] by simp
  show ?thesis
  proof (cases "a < 0")
    case True
    with s eq have "dec_nat (nat (- a)) = dec_nat (nat (- b))" by (simp add: itoa_def)
    then have "Some (nat (- a)) = Some (nat (- b))" by (metis parse_digits_dec_nat)
    with True s show ?thesis by simp
  next
    case False
    with s eq have "dec_nat (nat a) = dec_nat (nat b)" by (simp add: itoa_def)
    then have "Some (nat a) = Some (nat b)" by (metis parse_digits_dec_nat)
    with False s show ?thesis by simp
  qed
qed

section \<open>The invoker: protocol errors\<close>

text \<open>The status error carries the status code: different codes give different errors.\<close>

lemma status_error_inject: "status_error a = status_error b \<Longrightarrow> a = b"
  by (simp add: status_error_def itoa_inject)


text \<open>
  C2. For every response whose status code is at least 400, \<^verbatim>\<open>do\<close> returns the
  response together with the error made from that status code (its message ends in the
  code in decimal), and the destination is exactly what it was before the call; this
  holds for a destination of any type, whatever the body of the response is.
\<close>

theorem do_protocol_error:
  "httpClient c req = Inr resp \<Longrightarrow> 400 \<le> StatusCode resp \<Longrightarrow>
   do c st req v =
     ((Some (Close resp),
       Some (ErrorString (''printify API request failed with status:'' @ itoa (StatusCode resp)))),
      v)"
  by (simp add: do_def status_error_def)

theorem do_protocol_error_witness:
  "do (NewClient (replying 404 (Doc (JObject [(''message'', JString ''Not found'')]))) ''key'')
      (store_Order raw_lib)
      \<lparr>Method = ''GET'', RequestURL = ''https://api.printify.com/v1/shops/1/orders/2.json'',
       Header = Map.empty, RequestBody = None\<rparr>
      zero_Order =
     ((Some \<lparr>StatusCode = 404,
             Body = \<lparr>pending = Doc (JObject [(''message'', JString ''Not found'')]),
                     closed = True, readable_after_close = False\<rparr>\<rparr>,
       Some (ErrorString ''printify API request failed with status:404'')),
      zero_Order)"
  using do_protocol_error
    [of "NewClient (replying 404 (Doc (JObject [(''message'', JString ''Not found'')]))) ''key''"
        "\<lparr>Method = ''GET'', RequestURL = ''https://api.printify.com/v1/shops/1/orders/2.json'',
          Header = Map.empty, RequestBody = None\<rparr>"
        "\<lparr>StatusCode = 404,
          Body = \<lparr>pending = Doc (JObject [(''message'', JString ''Not found'')]),
                  closed = False, readable_after_close = False\<rparr>\<rparr>"
        "store_Order raw_lib" zero_Order]
  by (simp add: NewClient_def replying_def Close_def itoa_def dec_nat.simps digit_char_def)

section \<open>The request builder: the content type\<close>

text \<open>
  C8. Whenever \<^verbatim>\<open>newRequest\<close> builds a request (for every method, path and body, of
  any type), the request has no \<^verbatim>\<open>Content-Type\<close> header when the body is nil, and has
  exactly the one value \<^verbatim>\<open>application/json;charset=utf-8\<close> when a body is given.
\<close>

theorem newRequest_content_type:
  "newRequest L c enc method path body = Inr req \<Longrightarrow>
   Header req ''Content-Type'' = (case body of None \<Rightarrow> None | Some b \<Rightarrow> Some [contentType])"
  by (auto simp: newRequest_def http_NewRequest_def Header_Set_def Let_def
           split: option.splits sum.splits)

theorem newRequest_content_type_witness:
  "Header (projr (newRequest raw_lib (NewClient unreachable ''key'') (encode_Order raw_lib)
                    ''GET'' ''shops/1/orders/2.json'' None)) ''Content-Type'' = None
   \<and> Header (projr (newRequest raw_lib (NewClient unreachable ''key'') (encode_Order raw_lib)
                    ''POST'' ''shops/1/orders.json'' (Some zero_Order))) ''Content-Type''
       = Some [''application/json;charset=utf-8'']"
proof -
  let ?c = "NewClient unreachable ''key''"
  let ?get = "newRequest raw_lib ?c (encode_Order raw_lib) ''GET'' ''shops/1/orders/2.json'' None"
  let ?post = "newRequest raw_lib ?c (encode_Order raw_lib) ''POST'' ''shops/1/orders.json''
                 (Some zero_Order)"
  have built_get: "?get = Inr (projr ?get)"
    by (simp add: newRequest_def http_NewRequest_def raw_lib_def Let_def)
  have built_post: "?post = Inr (projr ?post)"
    by (simp add: newRequest_def http_NewRequest_def raw_lib_def Let_def encode_Order_def
          zero_Order_def omitempty_ptr_def omitempty_slice_def member_def encode_slice_def
          encode_ptr_def encode_int_def)
  show ?thesis
    using newRequest_content_type [OF built_get] newRequest_content_type [OF built_post]
    by (simp add: contentType_def)
qed

section \<open>The query string of the list operation\<close>

lemma ListShopOrders_path_all_given:
  "ListShopOrders_path 1 (Some 2) (Some 10) (Some ''pending'')
     = ''shops/1/orders.json?page=2&limit=10&status=pending''"
  by (simp add: ListShopOrders_path_def notnil_def getShopOrdersPath_def itoa_def dec_nat.simps
        digit_char_def)

lemma ListShopOrders_path_none_given:
  "ListShopOrders_path shopId None None None = getShopOrdersPath shopId"
  by (simp add: ListShopOrders_path_def notnil_def)

text \<open>
  C3. The claim is that the query string holds exactly the parameters that were given,
  with no stray separator. The two examples of the claim hold (the two lemmas above),
  but the separator before \<^verbatim>\<open>limit\<close> and \<^verbatim>\<open>status\<close> is written whether or not a
  parameter precedes it: with only a limit of 10 the path ends in \<^verbatim>\<open>?&limit=10\<close>.
\<close>

theorem ListShopOrders_path_stray_separator:
  "ListShopOrders_path 1 None (Some 10) None = ''shops/1/orders.json?&limit=10''"
  by (simp add: ListShopOrders_path_def notnil_def getShopOrdersPath_def itoa_def dec_nat.simps
        digit_char_def)

section \<open>Submitting an order\<close>

text \<open>
  Whenever the response to a submit has a success status and decodes without error,
  \<^verbatim>\<open>do\<close> returns a nil error, the branch that reads the identifier is not entered,
  and \<^verbatim>\<open>SubmitOrder\<close> returns a nil identifier with a nil error.
\<close>

lemma SubmitOrder_decoded:
  "newRequest L c (encode_Order L) ''POST'' (getShopOrdersPath shopId) (Some ord) = Inr req \<Longrightarrow>
   httpClient c req = Inr resp \<Longrightarrow> StatusCode resp < 400 \<Longrightarrow>
   Decode (store_Order L) (Body resp) ord = ((None, ord'), rc) \<Longrightarrow>
   SubmitOrder L c shopId ord = (Returns (None, None), ord')"
  by (simp add: SubmitOrder_def do_def)

lemma SubmitOrder_transport_failure:
  "newRequest L c (encode_Order L) ''POST'' (getShopOrdersPath shopId) (Some ord) = Inr req \<Longrightarrow>
   httpClient c req = Inl err \<Longrightarrow>
   SubmitOrder L c shopId ord = (Panics ''invalid memory address or nil pointer dereference'', ord)"
  by (simp add: SubmitOrder_def do_def)

text \<open>
  A status of 400 or more does not come back as the status error either. With a body of
  \<^verbatim>\<open>net/http\<close>, already closed by \<^verbatim>\<open>do\<close>, nothing can be read and the error returned
  is that of \<^verbatim>\<open>json.Unmarshal\<close> on no input; with a body that can still be read after
  \<^verbatim>\<open>Close\<close>, an object without \<^verbatim>\<open>id\<close> gives a nil identifier and a nil error.
\<close>

lemma SubmitOrder_protocol_error_replaced:
  "fst (SubmitOrder raw_lib
          (NewClient (replying 404 (Doc (JObject [(''message'', JString ''Not found'')]))) ''key'')
          1 zero_Order)
   = Returns (None, Some (SyntaxError ''unexpected end of JSON input''))"
  by code_simp

lemma SubmitOrder_protocol_error_swallowed:
  "fst (SubmitOrder raw_lib
          (NewClient (\<lambda>req. Inr \<lparr>StatusCode = 404,
                                    Body = \<lparr>pending = Doc (JObject [(''message'', JString ''Not found'')]),
                                            closed = False, readable_after_close = True\<rparr>\<rparr>) ''key'')
          1 zero_Order)
   = Returns (None, None)"
  by code_simp

text \<open>
  C1. The claim is that a submit answered with status 200 and the body
  \<^verbatim>\<open>{"id": "abc123"}\<close> returns the identifier \<^verbatim>\<open>abc123\<close>. The code returns a nil
  identifier and a nil error; the identifier ends up in the caller's order instead.
\<close>

theorem SubmitOrder_success_returns_no_identifier:
  "SubmitOrder raw_lib
     (NewClient (replying 200 (Doc (JObject [(''id'', JString ''abc123'')]))) ''key'') 1 zero_Order
   = (Returns (None, None), zero_Order\<lparr>OrderId := Some ''abc123''\<rparr>)"
  by code_simp

text \<open>
  C4. The claim is that a failure of the transport comes back from \<^verbatim>\<open>SubmitOrder\<close>
  as an error value. \<^verbatim>\<open>do\<close> returns a nil response with the error, and
  \<^verbatim>\<open>SubmitOrder\<close> then reads \<^verbatim>\<open>resp.Body\<close>: the call ends in a nil pointer panic.
\<close>

theorem SubmitOrder_transport_failure_panics:
  "fst (SubmitOrder raw_lib (NewClient unreachable ''key'') 1 zero_Order)
   = Panics ''invalid memory address or nil pointer dereference''"
  by code_simp

section \<open>Keys that name no field\<close>

text \<open>
  A member whose key names no field of \<^verbatim>\<open>Order\<close> is skipped without error, so only
  the known members of an object matter to what is stored.
\<close>

lemma Order_field_unknown: "\<not> known_Order_key k \<Longrightarrow> Order_field L k j ord = (Done, ord)"
  by (simp add: known_Order_key_def Order_field_def)

lemma store_members_known:
  "store_members (Order_field L) kvs ord = store_members (Order_field L) (known_members kvs) ord"
proof (induction kvs arbitrary: ord)
  case Nil
  show ?case by (simp add: known_members_def)
next
  case (Cons kj kvs)
  obtain k j where kj: "kj = (k, j)" by (cases kj)
  show ?case
  proof (cases "known_Order_key k")
    case True
    with kj Cons.IH show ?thesis
      by (simp add: known_members_def split: prod.splits)
  next
    case False
    then have "Order_field L k j ord = (Done, ord)" by (rule Order_field_unknown)
    with kj False Cons.IH [of ord] show ?thesis
      by (simp add: known_members_def split: prod.splits)
  qed
qed

section \<open>The caller's order\<close>

text \<open>
  C5, as the claim states it: \<^verbatim>\<open>SubmitOrder\<close> leaves the order it was given unchanged
  whatever the response. It does not: the order is also the destination of \<^verbatim>\<open>do\<close>,
  and a success response is decoded into it.
\<close>

theorem SubmitOrder_changes_the_order:
  "snd (SubmitOrder raw_lib
          (NewClient (replying 200 (Doc (JObject [(''id'', JString ''abc123'')]))) ''key'')
          1 zero_Order)
   \<noteq> zero_Order"
  by code_simp

lemma Decode_Order_decoded_into:
  "snd (fst (Decode (store_Order L) rc ord)) = decoded_into L rc ord"
proof (cases "closed rc \<and> \<not> readable_after_close rc")
  case True
  then show ?thesis by (simp add: Decode_def decoded_into_def)
next
  case False
  show ?thesis
  proof (cases "pending rc")
    case (Doc j)
    with False show ?thesis
      by (cases j)
         (auto simp: Decode_def decoded_into_def store_Order_def store_struct_def
            store_members_known [symmetric] split: prod.splits)
  qed (use False in \<open>auto simp: Decode_def decoded_into_def\<close>)
qed

lemma decoded_into_not_object:
  "(\<And>kvs. pending rc \<noteq> Doc (JObject kvs)) \<Longrightarrow> decoded_into L rc ord = ord"
  by (cases "pending rc"; simp add: decoded_into_def split: json.splits)

lemma decoded_into_nothing_known:
  "pending rc = Doc (JObject kvs) \<Longrightarrow> known_members kvs = [] \<Longrightarrow> decoded_into L rc ord = ord"
  by (simp add: decoded_into_def)

text \<open>
  C5, amended. After \<^verbatim>\<open>SubmitOrder\<close> the caller's order is unchanged when the request
  is not built, the transport fails, or the status is 400 or more; on a status below 400
  it is the order with the response body decoded into it, that is with the members of
  the body's object whose keys name a field stored in turn, and unchanged for a body that
  cannot be read, is empty, cut short, not JSON, not an object, or an object with no such
  key. \<^verbatim>\<open>CalculateShippingCosts\<close>, which only encodes the order, always leaves it
  unchanged.
\<close>

theorem caller_order_after_call:
  "snd (CalculateShippingCosts L c shopId' ord) = ord
   \<and> snd (SubmitOrder L c shopId ord) =
       (case newRequest L c (encode_Order L) ''POST'' (getShopOrdersPath shopId) (Some ord) of
          Inl err \<Rightarrow> ord
        | Inr req \<Rightarrow>
            (case httpClient c req of
               Inl err \<Rightarrow> ord
             | Inr resp \<Rightarrow>
                 if 400 \<le> StatusCode resp then ord else decoded_into L (Body resp) ord))"
proof
  show "snd (CalculateShippingCosts L c shopId' ord) = ord"
    by (simp add: CalculateShippingCosts_def Let_def split: sum.splits prod.splits)
next
  have sub: "snd (do c (store_Order L) req ord) = decoded_into L (Body resp) ord"
    if sent: "httpClient c req = Inr resp" and ok: "\<not> 400 \<le> StatusCode resp" for req resp
  proof -
    obtain e v' rc where d: "Decode (store_Order L) (Body resp) ord = ((e, v'), rc)"
      by (metis prod.exhaust)
    with Decode_Order_decoded_into [of L "Body resp" ord]
    have "v' = decoded_into L (Body resp) ord" by simp
    with sent ok d show ?thesis by (simp add: do_def)
  qed
  show "snd (SubmitOrder L c shopId ord) =
       (case newRequest L c (encode_Order L) ''POST'' (getShopOrdersPath shopId) (Some ord) of
          Inl err \<Rightarrow> ord
        | Inr req \<Rightarrow>
            (case httpClient c req of
               Inl err \<Rightarrow> ord
             | Inr resp \<Rightarrow>
                 if 400 \<le> StatusCode resp then ord else decoded_into L (Body resp) ord))"
  proof (cases "newRequest L c (encode_Order L) ''POST'' (getShopOrdersPath shopId) (Some ord)")
    case (Inl err)
    then show ?thesis by (simp add: SubmitOrder_def)
  next
    case built: (Inr req)
    show ?thesis
    proof (cases "httpClient c req")
      case (Inl err)
      with built show ?thesis by (simp add: SubmitOrder_def do_def)
    next
      case (Inr resp)
      show ?thesis
      proof (cases "400 \<le> StatusCode resp")
        case True
        with built Inr show ?thesis
          by (simp add: SubmitOrder_def do_def split: prod.splits option.splits)
      next
        case False
        have ord': "snd (SubmitOrder L c shopId ord) = snd (do c (store_Order L) req ord)"
          using built by (simp add: SubmitOrder_def split: prod.splits option.splits)
        from sub [OF Inr False] ord' built Inr False show ?thesis by simp
      qed
    qed
  qed
qed

theorem caller_order_after_call_witness:
  "snd (SubmitOrder raw_lib
          (NewClient (replying 200 (Doc (JObject [(''unexpected'', JBool True),
                                                  (''id'', JString ''abc123'')]))) ''key'')
          1 zero_Order) = zero_Order\<lparr>OrderId := Some ''abc123''\<rparr>
   \<and> snd (SubmitOrder raw_lib
            (NewClient (replying 200 (Doc (JObject [(''unexpected'', JBool True)]))) ''key'')
            1 zero_Order) = zero_Order
   \<and> snd (SubmitOrder raw_lib (NewClient (replying 200 Garbage) ''key'') 1 zero_Order) = zero_Order
   \<and> snd (SubmitOrder raw_lib
            (NewClient (replying 422 (Doc (JObject [(''id'', JString ''abc123'')]))) ''key'')
            1 zero_Order) = zero_Order
   \<and> snd (SubmitOrder raw_lib (NewClient unreachable ''key'') 1 zero_Order) = zero_Order
   \<and> snd (CalculateShippingCosts raw_lib
            (NewClient (replying 200 (Doc (JObject [(''id'', JString ''abc123'')]))) ''key'')
            1 zero_Order) = zero_Order"
proof -
  let ?z = "zero_Order :: (json, json, json, json, json, json) Order"
  let ?c1 = "NewClient (replying 200 (Doc (JObject [(''unexpected'', JBool True),
                                                    (''id'', JString ''abc123'')]))) ''key''"
  let ?c2 = "NewClient (replying 200 (Doc (JObject [(''unexpected'', JBool True)]))) ''key''"
  let ?c3 = "NewClient (replying 200 Garbage) ''key''"
  let ?c4 = "NewClient (replying 422 (Doc (JObject [(''id'', JString ''abc123'')]))) ''key''"
  let ?c5 = "NewClient unreachable ''key''"
  let ?c6 = "NewClient (replying 200 (Doc (JObject [(''id'', JString ''abc123'')]))) ''key''"
  note after = conjunct2 [OF caller_order_after_call]
  have "snd (SubmitOrder raw_lib ?c1 1 ?z) = ?z\<lparr>OrderId := Some ''abc123''\<rparr>"
    by (subst after) code_simp
  moreover have "snd (SubmitOrder raw_lib ?c2 1 ?z) = ?z"
    by (subst after) code_simp
  moreover have "snd (SubmitOrder raw_lib ?c3 1 ?z) = ?z"
    by (subst after) code_simp
  moreover have "snd (SubmitOrder raw_lib ?c4 1 ?z) = ?z"
    by (subst after) code_simp
  moreover have "snd (SubmitOrder raw_lib ?c5 1 ?z) = ?z"
    by (subst after) code_simp
  moreover have "snd (CalculateShippingCosts raw_lib ?c6 1 ?z) = ?z"
    by (rule conjunct1 [OF caller_order_after_call])
  ultimately show ?thesis by simp
qed

section \<open>Encoding an order and decoding it back\<close>

lemma names_line_items:
  "names ''line_items'' ''id'' = False" "names ''line_items'' ''address_to'' = False"
  "names ''line_items'' ''line_items'' = True"
  by (simp_all add: names_def Let_def)

lemma names_shipping_method:
  "names ''shipping_method'' ''id'' = False" "names ''shipping_method'' ''address_to'' = False"
  "names ''shipping_method'' ''line_items'' = False" "names ''shipping_method'' ''metadata'' = False"
  "names ''shipping_method'' ''total_price'' = False"
  "names ''shipping_method'' ''total_shipping'' = False"
  "names ''shipping_method'' ''total_tax'' = False" "names ''shipping_method'' ''status'' = False"
  "names ''shipping_method'' ''shipping_method'' = True"
  by (simp_all add: names_def Let_def)

lemma names_send_shipping_notification:
  "names ''send_shipping_notification'' ''id'' = False"
  "names ''send_shipping_notification'' ''address_to'' = False"
  "names ''send_shipping_notification'' ''line_items'' = False"
  "names ''send_shipping_notification'' ''metadata'' = False"
  "names ''send_shipping_notification'' ''total_price'' = False"
  "names ''send_shipping_notification'' ''total_shipping'' = False"
  "names ''send_shipping_notification'' ''total_tax'' = False"
  "names ''send_shipping_notification'' ''status'' = False"
  "names ''send_shipping_notification'' ''shipping_method'' = False"
  "names ''send_shipping_notification'' ''send_shipping_notification'' = True"
  by (simp_all add: names_def Let_def)

lemma Order_field_line_items:
  "Order_field L ''line_items'' j ord =
     (case store_slice None (store_ptr (zero (LineItem L)) (store (LineItem L))) j (LineItems ord) of
        (r, x) \<Rightarrow> (r, ord\<lparr>LineItems := x\<rparr>))"
  unfolding Order_field_def by (simp only: names_line_items if_True if_False)

lemma Order_field_shipping_method:
  "Order_field L ''shipping_method'' j ord =
     (case store_int j (ShippingMethod ord) of (r, x) \<Rightarrow> (r, ord\<lparr>ShippingMethod := x\<rparr>))"
  unfolding Order_field_def by (simp only: names_shipping_method if_True if_False)

lemma Order_field_send_shipping_notification:
  "Order_field L ''send_shipping_notification'' j ord =
     (case store_ptr False store_bool j (SendShippingNotification ord) of
        (r, x) \<Rightarrow> (r, ord\<lparr>SendShippingNotification := x\<rparr>))"
  unfolding Order_field_def by (simp only: names_send_shipping_notification if_True if_False)

lemma encode_Order_absent:
  "optional_fields_absent ord \<Longrightarrow> encode_Order L ord = Inr j \<Longrightarrow>
   \<exists>jl. j = JObject [(''line_items'', jl),
                      (''shipping_method'', JNumber (itoa (ShippingMethod ord))),
                      (''send_shipping_notification'', JNull)]"
  by (auto simp: encode_Order_def optional_fields_absent_def omitempty_ptr_def omitempty_slice_def
        member_def encode_ptr_def encode_int_def split: sum.splits)

lemma store_members_preserves:
  assumes step: "\<And>k j v r v'. (k, j) \<in> set kvs \<Longrightarrow> P v \<Longrightarrow> fld k j v = (r, v') \<Longrightarrow> P v'"
    and start: "P v"
  shows "P (snd (store_members fld kvs v))"
  using assms
proof (induction kvs arbitrary: v)
  case Nil
  then show ?case by simp
next
  case (Cons kj kvs)
  obtain k j where kj: "kj = (k, j)" by (cases kj)
  obtain r v' where f: "fld k j v = (r, v')" by (cases "fld k j v")
  have v': "P v'" using Cons.prems(1) [of k j v r v'] Cons.prems(2) kj f by simp
  have rest: "P (snd (store_members fld kvs v'))"
  proof (rule Cons.IH)
    show "P v'" by (rule v')
  next
    fix k j u r u'
    assume "(k, j) \<in> set kvs" "P u" "fld k j u = (r, u')"
    then show "P u'" using Cons.prems(1) [of k j u r u'] by simp
  qed
  show ?case using kj f v' rest by (auto split: prod.splits)
qed

lemma line_items_keeps_absent:
  "Order_field L ''line_items'' j ord = (r, ord') \<Longrightarrow> optional_fields_absent ord \<Longrightarrow>
   optional_fields_absent ord'"
  by (auto simp: Order_field_line_items optional_fields_absent_def split: prod.splits)

lemma shipping_method_keeps_absent:
  "Order_field L ''shipping_method'' j ord = (r, ord') \<Longrightarrow> optional_fields_absent ord \<Longrightarrow>
   optional_fields_absent ord'"
  by (auto simp: Order_field_shipping_method optional_fields_absent_def split: prod.splits)

lemma send_shipping_notification_null_keeps_absent:
  "Order_field L ''send_shipping_notification'' JNull ord = (r, ord') \<Longrightarrow>
   optional_fields_absent ord \<Longrightarrow> optional_fields_absent ord'"
  by (auto simp: Order_field_send_shipping_notification optional_fields_absent_def store_ptr_def)

lemma store_Order_absent:
  "optional_fields_absent
     (snd (store_Order L (JObject [(''line_items'', jl), (''shipping_method'', jn),
                                   (''send_shipping_notification'', JNull)]) zero_Order))"
proof -
  have z: "optional_fields_absent (zero_Order :: ('a, 'b, 'c, 'd, 'e, 'f) Order)"
    by (simp add: optional_fields_absent_def zero_Order_def)
  have "optional_fields_absent
          (snd (store_members (Order_field L)
                  [(''line_items'', jl), (''shipping_method'', jn),
                   (''send_shipping_notification'', JNull)] zero_Order))"
  proof (rule store_members_preserves [where P = optional_fields_absent, OF _ z])
    fix k j v r v'
    assume "(k, j) \<in> set [(''line_items'', jl), (''shipping_method'', jn),
                            (''send_shipping_notification'', JNull)]"
      and "optional_fields_absent v" and "Order_field L k j v = (r, v')"
    then show "optional_fields_absent v'"
      using line_items_keeps_absent shipping_method_keeps_absent
        send_shipping_notification_null_keeps_absent
      by (elim set_ConsD [elim_format]) auto
  qed
  then show ?thesis by (simp add: store_Order_def store_struct_def)
qed

text \<open>
  When, moreover, the order has no line items and its shipping method is a 64-bit
  integer, encoding succeeds and decoding gives back the very same order, with no error.
\<close>

lemma Order_roundtrip_exact:
  assumes absent: "optional_fields_absent ord"
    and items: "LineItems ord = None \<or> LineItems ord = Some []"
    and range: "- 9223372036854775808 \<le> ShippingMethod ord"
               "ShippingMethod ord \<le> 9223372036854775807"
  shows "\<exists>j. encode_Order L ord = Inr j \<and> store_Order L j zero_Order = (Done, ord)"
proof -
  let ?jl = "case LineItems ord of None \<Rightarrow> JNull | Some xs \<Rightarrow> JArray []"
  let ?j = "JObject [(''line_items'', ?jl),
                     (''shipping_method'', JNumber (itoa (ShippingMethod ord))),
                     (''send_shipping_notification'', JNull)]"
  have enc: "encode_Order L ord = Inr ?j"
    using absent items
    by (auto simp: encode_Order_def optional_fields_absent_def omitempty_ptr_def
          omitempty_slice_def member_def encode_ptr_def encode_int_def encode_slice_def)
  have li: "store_slice None (store_ptr (zero (LineItem L)) (store (LineItem L))) ?jl None
            = (Done, LineItems ord)"
    using items by (auto simp: store_slice_def)
  have "store_Order L ?j zero_Order
        = (Done, zero_Order\<lparr>LineItems := LineItems ord, ShippingMethod := ShippingMethod ord,
                             SendShippingNotification := None\<rparr>)"
    by (simp add: store_Order_def store_struct_def Order_field_line_items
          Order_field_shipping_method Order_field_send_shipping_notification li
          ParseInt_itoa [OF range] store_ptr_def zero_Order_def)
  moreover have "zero_Order\<lparr>LineItems := LineItems ord, ShippingMethod := ShippingMethod ord,
                             SendShippingNotification := None\<rparr> = ord"
    using absent by (simp add: optional_fields_absent_def zero_Order_def)
  ultimately show ?thesis using enc by simp
qed

text \<open>
  C6. For every order whose optional fields are all absent: when it is encoded, decoding
  the document into a fresh order leaves every one of those fields absent. This holds
  for any line items and any shipping method, and whatever the library does with them.
\<close>

theorem Order_roundtrip_keeps_absent_fields:
  "optional_fields_absent ord \<Longrightarrow> encode_Order L ord = Inr j \<Longrightarrow>
   optional_fields_absent (snd (store_Order L j zero_Order))"
  using encode_Order_absent [of ord L j] store_Order_absent [of L] by auto

theorem Order_roundtrip_keeps_absent_fields_witness:
  "optional_fields_absent
     (snd (store_Order raw_lib
             (JObject [(''line_items'', JArray []), (''shipping_method'', JNumber ''2''),
                       (''send_shipping_notification'', JNull)])
             zero_Order))"
proof -
  let ?ord = "(zero_Order :: (json, json, json, json, json, json) Order)
                \<lparr>LineItems := Some [], ShippingMethod := 2\<rparr>"
  have absent: "optional_fields_absent ?ord"
    by (simp add: optional_fields_absent_def zero_Order_def)
  have encoded: "encode_Order raw_lib ?ord
      = Inr (JObject [(''line_items'', JArray []), (''shipping_method'', JNumber ''2''),
                      (''send_shipping_notification'', JNull)])"
    by (simp add: encode_Order_def zero_Order_def omitempty_ptr_def omitempty_slice_def
          member_def encode_slice_def encode_ptr_def encode_int_def itoa_def dec_nat.simps
          digit_char_def)
  from Order_roundtrip_keeps_absent_fields [OF absent encoded] show ?thesis .
qed

section \<open>The invoker: decoding a success response\<close>














text \<open>
  What is refused: a body that is not JSON, for any destination; a value of the wrong
  kind for the destination; an object with a member of the wrong kind for the scalar
  field its key names. What is accepted without error: \<^verbatim>\<open>null\<close>, and an object whose
  keys name no field, which leaves the destination as it was.
\<close>

lemma refuses_not_JSON:
  "refuses st Empty v" "refuses st Truncated v" "refuses st Garbage v"
  by (simp_all add: refuses_def)

lemma refuses_wrong_kind_for_struct:
  "j \<noteq> JNull \<Longrightarrow> \<not> is_JObject j \<Longrightarrow>
   refuses (store_Order L) (Doc j) ord \<and> refuses (store_ShippingCost L) (Doc j) sc"
  by (cases j) (simp_all add: refuses_def store_Order_def store_ShippingCost_def store_struct_def)

lemma refuses_wrong_kind_for_slice:
  "j \<noteq> JNull \<Longrightarrow> \<not> is_JArray j \<Longrightarrow> refuses (store_Orders L) (Doc j) s"
  by (cases j) (simp_all add: refuses_def store_Orders_def store_slice_def)

lemma store_members_refused:
  "(k, j) \<in> set kvs \<Longrightarrow> (\<And>v. fst (fld k j v) \<noteq> Done) \<Longrightarrow>
   fst (store_members fld kvs v) \<noteq> Done"
proof (induction kvs arbitrary: v)
  case Nil
  then show ?case by simp
next
  case (Cons kj kvs)
  obtain k' j' where kj: "kj = (k', j')" by (cases kj)
  obtain r v' where s: "fld k' j' v = (r, v')" by (cases "fld k' j' v")
  obtain r' v'' where t: "store_members fld kvs v' = (r', v'')"
    by (cases "store_members fld kvs v'")
  show ?case
  proof (cases "(k, j) = (k', j')")
    case True
    with Cons.prems(2) [of v] s have "r \<noteq> Done" by auto
    with kj s t show ?thesis by (cases r; cases r') simp_all
  next
    case False
    with Cons.prems(1) kj have "(k, j) \<in> set kvs" by auto
    from Cons.IH [OF this Cons.prems(2), of v'] t have "r' \<noteq> Done" by simp
    with kj s t show ?thesis by (cases r; cases r') simp_all
  qed
qed

lemma names_fold: "names k f = (foldName k = foldName f)"
  by (auto simp: names_def)

lemma Order_field_id:
  "names k ''id'' \<Longrightarrow>
   Order_field L k j ord =
     (case store_ptr [] store_string j (OrderId ord) of (r, x) \<Rightarrow> (r, ord\<lparr>OrderId := x\<rparr>))"
  by (simp add: Order_field_def)

lemma Order_field_status:
  assumes "names k ''status''"
  shows "Order_field L k j ord =
     (case store_ptr [] store_string j (Status ord) of (r, x) \<Rightarrow> (r, ord\<lparr>Status := x\<rparr>))"
proof -
  from assms have f: "foldName k = foldName ''status''" by (simp add: names_fold)
  have "\<not> names k ''id''" "\<not> names k ''address_to''" "\<not> names k ''line_items''"
    "\<not> names k ''metadata''" "\<not> names k ''total_price''" "\<not> names k ''total_shipping''"
    "\<not> names k ''total_tax''"
    unfolding names_fold f by (simp_all add: Let_def)
  with assms show ?thesis by (simp add: Order_field_def)
qed

lemma Order_field_shipping_method_key:
  assumes "names k ''shipping_method''"
  shows "Order_field L k j ord =
     (case store_int j (ShippingMethod ord) of (r, x) \<Rightarrow> (r, ord\<lparr>ShippingMethod := x\<rparr>))"
proof -
  from assms have f: "foldName k = foldName ''shipping_method''" by (simp add: names_fold)
  have "\<not> names k ''id''" "\<not> names k ''address_to''" "\<not> names k ''line_items''"
    "\<not> names k ''metadata''" "\<not> names k ''total_price''" "\<not> names k ''total_shipping''"
    "\<not> names k ''total_tax''" "\<not> names k ''status''"
    unfolding names_fold f by (simp_all add: Let_def)
  with assms show ?thesis by (simp add: Order_field_def)
qed

lemma Order_field_send_shipping_notification_key:
  assumes "names k ''send_shipping_notification''"
  shows "Order_field L k j ord =
     (case store_ptr False store_bool j (SendShippingNotification ord) of
        (r, x) \<Rightarrow> (r, ord\<lparr>SendShippingNotification := x\<rparr>))"
proof -
  from assms have f: "foldName k = foldName ''send_shipping_notification''"
    by (simp add: names_fold)
  have "\<not> names k ''id''" "\<not> names k ''address_to''" "\<not> names k ''line_items''"
    "\<not> names k ''metadata''" "\<not> names k ''total_price''" "\<not> names k ''total_shipping''"
    "\<not> names k ''total_tax''" "\<not> names k ''status''" "\<not> names k ''shipping_method''"
    unfolding names_fold f by (simp_all add: Let_def)
  with assms show ?thesis by (simp add: Order_field_def)
qed

lemma store_string_refuses:
  "store_ptr z store_string j p = (Done, x) \<Longrightarrow> string_or_null j"
  by (cases j) (simp_all add: store_ptr_def)

lemma store_bool_refuses:
  "store_ptr z store_bool j p = (Done, x) \<Longrightarrow> bool_or_null j"
  by (cases j) (simp_all add: store_ptr_def)

lemma store_int_refuses: "store_int j i = (Done, x) \<Longrightarrow> int_or_null j"
  by (cases j) (auto split: option.splits)

lemma Order_field_mistyped:
  "mistyped_Order_member k j \<Longrightarrow> fst (Order_field L k j ord) \<noteq> Done"
  unfolding mistyped_Order_member_def
  by (auto simp: Order_field_id Order_field_status Order_field_shipping_method_key
        Order_field_send_shipping_notification_key split: prod.splits
        dest: store_string_refuses store_bool_refuses store_int_refuses)

lemma refuses_mistyped_member:
  "(k, j) \<in> set kvs \<Longrightarrow> mistyped_Order_member k j \<Longrightarrow>
   refuses (store_Order L) (Doc (JObject kvs)) ord"
  using store_members_refused [of k j kvs "Order_field L"] Order_field_mistyped [of k j L]
  by (simp add: refuses_def store_Order_def store_struct_def)

lemma store_Order_unknown_keys:
  "known_members kvs = [] \<Longrightarrow> store_Order L (JObject kvs) ord = (Done, ord)"
  using store_members_known [of L kvs ord] by (simp add: store_Order_def store_struct_def)

lemma accepts_unknown_keys_and_null:
  "known_members kvs = [] \<Longrightarrow> \<not> refuses (store_Order L) (Doc (JObject kvs)) ord"
  "\<not> refuses (store_Order L) (Doc JNull) ord"
  by (simp_all add: refuses_def store_Order_unknown_keys) (simp add: store_Order_def store_struct_def)

lemma do_accepts_unknown_keys:
  "httpClient c req = Inr resp \<Longrightarrow> StatusCode resp < 400 \<Longrightarrow>
   closed (Body resp) = False \<or> readable_after_close (Body resp) \<Longrightarrow>
   pending (Body resp) = Doc (JObject kvs) \<Longrightarrow> known_members kvs = [] \<Longrightarrow>
   snd (fst (do c (store_Order L) req ord)) = None \<and> snd (do c (store_Order L) req ord) = ord"
  by (auto simp: do_def Decode_def store_Order_unknown_keys)





section \<open>The list operation: the returned slice\<close>

lemma store_slice_not_null:
  "j \<noteq> JNull \<Longrightarrow> store_slice z st j (Some ys) = (r, s) \<Longrightarrow> s \<noteq> None"
  by (cases j) (auto simp: store_slice_def split: prod.splits)

lemma Decode_Orders_not_null:
  "pending rc \<noteq> Doc JNull \<Longrightarrow> Decode (store_Orders L) rc (Some ys) = ((err, s), rc') \<Longrightarrow>
   s \<noteq> None"
  by (auto simp: Decode_def store_Orders_def split: payload.splits prod.splits if_splits
           dest: store_slice_not_null)

text \<open>
  C9, as the claim states it: \<^verbatim>\<open>ListShopOrders\<close> never returns a nil slice. It does
  when a success response has the body \<^verbatim>\<open>null\<close>: decoding sets the slice to nil, and
  the error is nil too.
\<close>

theorem ListShopOrders_nil_on_null:
  "ListShopOrders raw_lib (NewClient (replying 200 (Doc JNull)) ''key'') 1 None None None
   = (None, None)"
  by code_simp

text \<open>
  C9, amended. When the request is built and the answer is not a success response with
  the body \<^verbatim>\<open>null\<close>, \<^verbatim>\<open>ListShopOrders\<close> returns a slice that is not nil: on a
  transport failure, on a status of 400 or more, on a body that cannot be decoded, and
  on every array.
\<close>

theorem ListShopOrders_not_nil:
  "newRequest L c (encode_Order L) ''GET'' (ListShopOrders_path shopId page limit statusFilter) None
     = Inr req \<Longrightarrow>
   answers_null c req = False \<Longrightarrow>
   \<exists>orders. fst (ListShopOrders L c shopId page limit statusFilter) = Some orders"
proof -
  assume built: "newRequest L c (encode_Order L) ''GET''
                   (ListShopOrders_path shopId page limit statusFilter) None = Inr req"
    and nonnull: "answers_null c req = False"
  obtain resp err orderList where d: "do c (store_Orders L) req (Some []) = ((resp, err), orderList)"
    by (metis prod.exhaust)
  have "orderList \<noteq> None"
  proof (cases "httpClient c req")
    case (Inl e)
    with d show ?thesis by (auto simp: do_def)
  next
    case (Inr r)
    show ?thesis
    proof (cases "400 \<le> StatusCode r")
      case True
      with Inr d show ?thesis by (auto simp: do_def)
    next
      case False
      obtain e s rc where dec: "Decode (store_Orders L) (Body r) (Some []) = ((e, s), rc)"
        by (metis prod.exhaust)
      with Inr False d have s: "orderList = s" by (auto simp: do_def)
      show ?thesis
      proof (cases "closed (Body r) \<and> \<not> readable_after_close (Body r)")
        case True
        with dec s show ?thesis by (auto simp: Decode_def)
      next
        case open_body: False
        with nonnull Inr False have "pending (Body r) \<noteq> Doc JNull"
          by (auto simp: answers_null_def)
        from Decode_Orders_not_null [OF this dec] s show ?thesis by simp
      qed
    qed
  qed
  with built d show ?thesis by (auto simp: ListShopOrders_def)
qed

theorem ListShopOrders_not_nil_witness:
  "\<exists>orders. fst (ListShopOrders raw_lib (NewClient (replying 404 (Doc JNull)) ''key'') 1
                   (Some 2) (Some 10) (Some ''pending'')) = Some orders"
proof -
  let ?c = "NewClient (replying 404 (Doc JNull)) ''key''"
  let ?r = "newRequest raw_lib ?c (encode_Order raw_lib) ''GET''
              (ListShopOrders_path 1 (Some 2) (Some 10) (Some ''pending'')) None"
  have built: "?r = Inr (projr ?r)"
    by (simp add: newRequest_def http_NewRequest_def raw_lib_def Let_def)
  have "answers_null ?c (projr ?r) = False"
    by (simp add: answers_null_def NewClient_def replying_def)
  from ListShopOrders_not_nil [OF built this] show ?thesis .
qed

section \<open>Operations that return an order\<close>

text \<open>
  C10. For \<^verbatim>\<open>GetOrderDetails\<close>, \<^verbatim>\<open>SendOrderToProduction\<close> and \<^verbatim>\<open>CancelOrder\<close>, once
  the request is built the order returned is never nil, whatever the error: it is the
  zero order when the transport fails or the status is 400 or more, and otherwise the
  order as the decoder left it, returned along with the decoder's error if any.
\<close>

theorem order_operations_return_an_order:
  "newRequest L c (encode_Order L) ''GET'' (getShopOrderPath shopId orderId) None = Inr req1 \<Longrightarrow>
   newRequest L c (encode_Order L) ''POST'' (sendOrderToProductionPath shopId orderId) None = Inr req2 \<Longrightarrow>
   newRequest L c (encode_Order L) ''POST'' (cancelOrderPath shopId orderId) None = Inr req3 \<Longrightarrow>
   GetOrderDetails L c shopId orderId
     = (Some (fst (order_reply L c req1)), snd (order_reply L c req1))
   \<and> SendOrderToProduction L c shopId orderId
     = (Some (fst (order_reply L c req2)), snd (order_reply L c req2))
   \<and> CancelOrder L c shopId orderId
     = (Some (fst (order_reply L c req3)), snd (order_reply L c req3))"
  by (auto simp: GetOrderDetails_def SendOrderToProduction_def CancelOrder_def order_reply_def
        do_def split: sum.splits prod.splits)

theorem order_operations_return_an_order_witness:
  "GetOrderDetails raw_lib (NewClient (replying 404 (Doc (JObject []))) ''key'') 1 2
     = (Some zero_Order, Some (ErrorString ''printify API request failed with status:404''))
   \<and> SendOrderToProduction raw_lib (NewClient (replying 404 (Doc (JObject []))) ''key'') 1 2
     = (Some zero_Order, Some (ErrorString ''printify API request failed with status:404''))
   \<and> CancelOrder raw_lib (NewClient (replying 404 (Doc (JObject []))) ''key'') 1 2
     = (Some zero_Order, Some (ErrorString ''printify API request failed with status:404''))"
proof -
  let ?c = "NewClient (replying 404 (Doc (JObject []))) ''key''"
  let ?r1 = "newRequest raw_lib ?c (encode_Order raw_lib) ''GET'' (getShopOrderPath 1 2) None"
  let ?r2 = "newRequest raw_lib ?c (encode_Order raw_lib) ''POST'' (sendOrderToProductionPath 1 2) None"
  let ?r3 = "newRequest raw_lib ?c (encode_Order raw_lib) ''POST'' (cancelOrderPath 1 2) None"
  have b1: "?r1 = Inr (projr ?r1)"
    by (simp add: newRequest_def http_NewRequest_def raw_lib_def Let_def)
  have b2: "?r2 = Inr (projr ?r2)"
    by (simp add: newRequest_def http_NewRequest_def raw_lib_def Let_def)
  have b3: "?r3 = Inr (projr ?r3)"
    by (simp add: newRequest_def http_NewRequest_def raw_lib_def Let_def)
  have reply: "\<And>req. order_reply raw_lib ?c req
      = (zero_Order, Some (ErrorString ''printify API request failed with status:404''))"
    by (simp add: order_reply_def NewClient_def replying_def status_error_def itoa_def
          dec_nat.simps digit_char_def)
  from order_operations_return_an_order [OF b1 b2 b3] show ?thesis
    by (simp only: reply fst_conv snd_conv)
qed

end
